theory Spec2Isabelle
  imports Main "HOL-Library.Word"
begin

section \<open>Values, exceptions and the cache table\<close>

text \<open>
  The core class \<^verbatim>\<open>RadioGlobeCore\<close> of \<^verbatim>\<open>radioglobe_core.py\<close> talks to three
  collaborators: the SQLite file \<^verbatim>\<open>radio_cache.db\<close>, the radio-browser directory
  reached with \<^verbatim>\<open>requests\<close>, and a VLC player. The Python values that travel between
  them are decoded JSON documents and SQLite column values.

  A Python \<^verbatim>\<open>float\<close> is the 64 bits of its IEEE 754 representation (the decoder of
  \<^verbatim>\<open>requests\<close> also accepts \<^verbatim>\<open>NaN\<close> and \<^verbatim>\<open>Infinity\<close>); an instant of
  \<^verbatim>\<open>datetime.now()\<close> is an integer count of microseconds, so \<^verbatim>\<open>timedelta(hours=6)\<close> is
  \<open>21600000000\<close>. A decoded JSON object is an association list with distinct keys.
\<close>

datatype pyfloat = Float64 "64 word"

text \<open>A NaN has all exponent bits set and a fraction that is not zero.\<close>

definition is_nan :: "pyfloat \<Rightarrow> bool" where
  "is_nan f = (case f of Float64 w \<Rightarrow> unat w mod 2 ^ 63 > 2047 * 2 ^ 52)"

datatype pyval =
    PNone
  | PBool bool
  | PInt int
  | PFloat pyfloat
  | PStr string
  | PTime int
  | PList "pyval list"
  | PDict "(string \<times> pyval) list"

text \<open>
  \<open>PTime t\<close> stands for the text that \<^verbatim>\<open>sqlite3\<close> stores for the \<^verbatim>\<open>datetime\<close> of instant
  \<open>t\<close> and hands back when the column is read; the text itself is not spelled out.
  It occurs in the dictionaries of a cache hit only, never in a decoded response.
\<close>

datatype exn =
    TypeError
  | AttributeError
  | OverflowError
  | ProgrammingError
  | OperationalError
  | RequestException
  | HTTPError
  | JSONDecodeError
  | VLCException string

datatype sqlval = Null | Integer int | Real pyfloat | Text string

record row =
  col_id :: sqlval
  col_name :: sqlval
  col_url :: sqlval
  col_country :: sqlval
  col_code :: sqlval
  col_tags :: sqlval
  col_homepage :: sqlval
  col_lat :: sqlval
  col_lon :: sqlval
  col_last_updated :: int

text \<open>
  The file \<^verbatim>\<open>radio_cache.db\<close>: either it cannot be opened or queried (missing
  permissions, corrupt file, no table), or it holds the table \<^verbatim>\<open>stations\<close>, whose rows are
  listed in rowid order.
\<close>

datatype db_file = Unavailable | Table "row list"

text \<open>
  A connection of \<^verbatim>\<open>sqlite3.connect\<close> in the module's default transaction mode: it sees
  the rows of the file, and a data-modifying statement opens a transaction whose rows
  live in \<open>pending\<close> until \<^verbatim>\<open>commit()\<close>. \<^verbatim>\<open>close()\<close> does not commit: the pending
  transaction is rolled back and the file keeps \<open>committed\<close>.
\<close>

record connection =
  committed :: "row list"
  pending :: "row list option"

definition connect :: "db_file \<Rightarrow> exn + connection" where
  "connect f = (case f of
      Unavailable \<Rightarrow> Inl OperationalError
    | Table rows \<Rightarrow> Inr \<lparr>committed = rows, pending = None\<rparr>)"

definition visible :: "connection \<Rightarrow> row list" where
  "visible conn = (case pending conn of None \<Rightarrow> committed conn | Some rows \<Rightarrow> rows)"

definition close :: "connection \<Rightarrow> db_file" where
  "close conn = Table (committed conn)"

subsection \<open>Binding Python values to statement parameters\<close>

text \<open>
  \<^verbatim>\<open>sqlite3\<close> binds \<^verbatim>\<open>None\<close>, \<^verbatim>\<open>int\<close> (within 64 bits), \<^verbatim>\<open>float\<close> and \<^verbatim>\<open>str\<close>; a
  \<^verbatim>\<open>bool\<close> is an \<^verbatim>\<open>int\<close>; a NaN is bound as \<^verbatim>\<open>NULL\<close>; a list or a dict is refused.
\<close>

definition bind :: "pyval \<Rightarrow> exn + sqlval" where
  "bind v = (case v of
      PNone \<Rightarrow> Inr Null
    | PBool b \<Rightarrow> Inr (Integer (if b then 1 else 0))
    | PInt i \<Rightarrow> (if - (2 ^ 63) \<le> i \<and> i < 2 ^ 63 then Inr (Integer i) else Inl OverflowError)
    | PFloat f \<Rightarrow> Inr (if is_nan f then Null else Real f)
    | PStr s \<Rightarrow> Inr (Text s)
    | PTime t \<Rightarrow> Inl ProgrammingError
    | PList xs \<Rightarrow> Inl ProgrammingError
    | PDict kvs \<Rightarrow> Inl ProgrammingError)"

definition unbind :: "sqlval \<Rightarrow> pyval" where
  "unbind v = (case v of
      Null \<Rightarrow> PNone
    | Integer i \<Rightarrow> PInt i
    | Real r \<Rightarrow> PFloat r
    | Text s \<Rightarrow> PStr s)"

subsection \<open>Column affinity\<close>

text \<open>
  SQLite coerces a bound value to the affinity of the column it is stored in. The
  columns \<^verbatim>\<open>id\<close>, \<^verbatim>\<open>name\<close>, \<^verbatim>\<open>url\<close>, \<^verbatim>\<open>country\<close>, \<^verbatim>\<open>code\<close>, \<^verbatim>\<open>tags\<close> and
  \<^verbatim>\<open>homepage\<close> are declared \<^verbatim>\<open>TEXT\<close>: a number is stored as its text. The columns
  \<^verbatim>\<open>lat\<close> and \<^verbatim>\<open>lon\<close> are declared \<^verbatim>\<open>REAL\<close>: an integer is stored as a float, and so
  is a text that reads as a number, any other text staying as it is. The text of an
  integer is its decimal numeral. The three conversions that involve floating point
  (the text of a float, the float of an integer, the float read from a text) are
  parameters of the model.
\<close>

fun digits :: "nat \<Rightarrow> string" where
  "digits n = (if n < 10 then [char_of (48 + n)]
               else digits (n div 10) @ [char_of (48 + n mod 10)])"

definition decimal :: "int \<Rightarrow> string" where
  "decimal i = (if i < 0 then CHR ''-'' # digits (nat (- i)) else digits (nat i))"

record conversions =
  real_text :: "pyfloat \<Rightarrow> string"
  int_real :: "int \<Rightarrow> pyfloat"
  text_real :: "string \<Rightarrow> pyfloat option"

definition text_affinity :: "conversions \<Rightarrow> sqlval \<Rightarrow> sqlval" where
  "text_affinity fl v = (case v of
      Null \<Rightarrow> Null
    | Integer i \<Rightarrow> Text (decimal i)
    | Real f \<Rightarrow> Text (real_text fl f)
    | Text s \<Rightarrow> Text s)"

definition real_affinity :: "conversions \<Rightarrow> sqlval \<Rightarrow> sqlval" where
  "real_affinity fl v = (case v of
      Null \<Rightarrow> Null
    | Integer i \<Rightarrow> Real (int_real fl i)
    | Real f \<Rightarrow> Real f
    | Text s \<Rightarrow> (case text_real fl s of None \<Rightarrow> Text s | Some f \<Rightarrow> Real f))"

subsection \<open>The cache lookup\<close>

text \<open>\<^verbatim>\<open>self.cache_expiry = timedelta(hours=6)\<close>, in microseconds.\<close>

definition cache_expiry :: int where
  "cache_expiry = 6 * 3600 * 1000000"

text \<open>
  The \<^verbatim>\<open>WHERE\<close> clause of \<^verbatim>\<open>_get_cached_stations\<close>:
  \<^verbatim>\<open>country = ? AND last_updated > ?\<close> with the parameters
  \<^verbatim>\<open>(country, datetime.now() - self.cache_expiry)\<close>. A \<^verbatim>\<open>NULL\<close> country matches nothing.
\<close>

definition select_stations :: "string \<Rightarrow> int \<Rightarrow> row list \<Rightarrow> row list" where
  "select_stations cname cutoff rows =
     filter (\<lambda>r. col_country r = Text cname \<and> col_last_updated r > cutoff) rows"

text \<open>\<^verbatim>\<open>dict(row)\<close> under \<^verbatim>\<open>sqlite3.Row\<close>: the column names of the table, in order.\<close>

definition dict_of_row :: "row \<Rightarrow> pyval" where
  "dict_of_row r = PDict
     [(''id'', unbind (col_id r)),
      (''name'', unbind (col_name r)),
      (''url'', unbind (col_url r)),
      (''country'', unbind (col_country r)),
      (''code'', unbind (col_code r)),
      (''tags'', unbind (col_tags r)),
      (''homepage'', unbind (col_homepage r)),
      (''lat'', unbind (col_lat r)),
      (''lon'', unbind (col_lon r)),
      (''last_updated'', PTime (col_last_updated r))]"

definition get_cached_rows :: "int \<Rightarrow> string \<Rightarrow> db_file \<Rightarrow> exn + row list" where
  "get_cached_rows now cname f = (case connect f of
      Inl e \<Rightarrow> Inl e
    | Inr conn \<Rightarrow> Inr (select_stations cname (now - cache_expiry) (visible conn)))"

definition get_cached_stations :: "int \<Rightarrow> string \<Rightarrow> db_file \<Rightarrow> exn + pyval list" where
  "get_cached_stations now cname f = (case get_cached_rows now cname f of
      Inl e \<Rightarrow> Inl e
    | Inr rows \<Rightarrow> Inr (map dict_of_row rows))"

subsection \<open>The upsert of a fetched batch\<close>

text \<open>
  What Python does with the decoded response in \<^verbatim>\<open>_cache_stations\<close>: \<^verbatim>\<open>for s in stations\<close>
  iterates a list, the keys of a dict or the characters of a string and raises
  \<^verbatim>\<open>TypeError\<close> on anything else; \<^verbatim>\<open>s.get(k)\<close> exists on a dict only and yields \<^verbatim>\<open>None\<close>
  for a missing key; \<^verbatim>\<open>len\<close> is defined on the same three shapes.
\<close>

definition py_iter :: "pyval \<Rightarrow> exn + pyval list" where
  "py_iter v = (case v of
      PList xs \<Rightarrow> Inr xs
    | PDict kvs \<Rightarrow> Inr (map (\<lambda>kv. PStr (fst kv)) kvs)
    | PStr s \<Rightarrow> Inr (map (\<lambda>c. PStr [c]) s)
    | _ \<Rightarrow> Inl TypeError)"

definition py_len :: "pyval \<Rightarrow> exn + nat" where
  "py_len v = (case v of
      PList xs \<Rightarrow> Inr (length xs)
    | PDict kvs \<Rightarrow> Inr (length kvs)
    | PStr s \<Rightarrow> Inr (length s)
    | _ \<Rightarrow> Inl TypeError)"

definition py_get :: "pyval \<Rightarrow> string \<Rightarrow> exn + pyval" where
  "py_get s k = (case s of
      PDict kvs \<Rightarrow> Inr (case map_of kvs k of None \<Rightarrow> PNone | Some v \<Rightarrow> v)
    | _ \<Rightarrow> Inl AttributeError)"

text \<open>The directory fields read for the nine leading columns, in the order of the tuple.\<close>

definition station_fields :: "string list" where
  "station_fields = [''stationuuid'', ''name'', ''url'', ''country'', ''countrycode'',
     ''tags'', ''homepage'', ''geo_lat'', ''geo_long'']"

fun get_all :: "pyval \<Rightarrow> string list \<Rightarrow> exn + pyval list" where
  "get_all s [] = Inr []"
| "get_all s (k # ks) = (case py_get s k of
      Inl e \<Rightarrow> Inl e
    | Inr v \<Rightarrow> (case get_all s ks of Inl e \<Rightarrow> Inl e | Inr vs \<Rightarrow> Inr (v # vs)))"

text \<open>
  The list comprehension: one tuple per element, the tenth component being the
  \<^verbatim>\<open>datetime.now()\<close> read for that element (\<open>clock k\<close> for the element at position \<open>k\<close>).
\<close>

fun station_tuples :: "(nat \<Rightarrow> int) \<Rightarrow> nat \<Rightarrow> pyval list \<Rightarrow> exn + (pyval list \<times> int) list" where
  "station_tuples clock k [] = Inr []"
| "station_tuples clock k (s # ss) = (case get_all s station_fields of
      Inl e \<Rightarrow> Inl e
    | Inr vs \<Rightarrow> (case station_tuples clock (Suc k) ss of
        Inl e \<Rightarrow> Inl e
      | Inr ts \<Rightarrow> Inr ((vs, clock k) # ts)))"

fun bind_all :: "pyval list \<Rightarrow> exn + sqlval list" where
  "bind_all [] = Inr []"
| "bind_all (v # vs) = (case bind v of
      Inl e \<Rightarrow> Inl e
    | Inr x \<Rightarrow> (case bind_all vs of Inl e \<Rightarrow> Inl e | Inr xs \<Rightarrow> Inr (x # xs)))"

text \<open>
  \<^verbatim>\<open>VALUES (?,?,?,?,?,?,?,?,?,?)\<close>: nine bound values and the timestamp, each stored
  under the affinity of its column. The text of a \<^verbatim>\<open>datetime\<close> is no number, so the
  \<^verbatim>\<open>TIMESTAMP\<close> column keeps it as it is.
\<close>

definition row_of_values :: "conversions \<Rightarrow> sqlval list \<Rightarrow> int \<Rightarrow> exn + row" where
  "row_of_values fl xs t = (case xs of
      [a, b, c, d, e, f, g, h, i] \<Rightarrow>
        Inr \<lparr>col_id = text_affinity fl a, col_name = text_affinity fl b,
             col_url = text_affinity fl c, col_country = text_affinity fl d,
             col_code = text_affinity fl e, col_tags = text_affinity fl f,
             col_homepage = text_affinity fl g, col_lat = real_affinity fl h,
             col_lon = real_affinity fl i, col_last_updated = t\<rparr>
    | _ \<Rightarrow> Inl ProgrammingError)"

text \<open>
  \<^verbatim>\<open>INSERT OR REPLACE\<close> on the table created by \<^verbatim>\<open>_init_cache_db\<close>, whose only
  uniqueness constraint is \<^verbatim>\<open>id TEXT PRIMARY KEY\<close>. The rows in conflict with the new
  one are deleted and the new row is appended with a new rowid. The column is not
  declared \<^verbatim>\<open>NOT NULL\<close> and the table is an ordinary rowid table, so SQLite accepts
  \<^verbatim>\<open>NULL\<close> in it, and a \<^verbatim>\<open>NULL\<close> key conflicts with no row, not even another \<^verbatim>\<open>NULL\<close>.
\<close>

definition insert_or_replace :: "row \<Rightarrow> row list \<Rightarrow> row list" where
  "insert_or_replace r rows =
     (if col_id r = Null then rows @ [r]
      else filter (\<lambda>x. col_id x \<noteq> col_id r) rows @ [r])"

fun upsert_rows :: "conversions \<Rightarrow> (pyval list \<times> int) list \<Rightarrow> row list \<Rightarrow> exn option \<times> row list" where
  "upsert_rows fl [] rows = (None, rows)"
| "upsert_rows fl ((vs, t) # ts) rows = (case bind_all vs of
      Inl e \<Rightarrow> (Some e, rows)
    | Inr xs \<Rightarrow> (case row_of_values fl xs t of
        Inl e \<Rightarrow> (Some e, rows)
      | Inr r \<Rightarrow> upsert_rows fl ts (insert_or_replace r rows)))"

text \<open>
  \<^verbatim>\<open>conn.executemany\<close>: the statement runs once per tuple inside the transaction that the
  module opens before the first \<^verbatim>\<open>INSERT\<close>; a tuple that cannot be bound raises and
  leaves the rows written so far in the transaction.
\<close>

definition executemany ::
  "conversions \<Rightarrow> connection \<Rightarrow> (pyval list \<times> int) list \<Rightarrow> exn option \<times> connection" where
  "executemany fl conn ts = (case upsert_rows fl ts (visible conn) of
      (r, rows) \<Rightarrow> (r, conn\<lparr>pending := Some rows\<rparr>))"

text \<open>
  \<^verbatim>\<open>_cache_stations\<close>: connect, build the tuples, run the statement, and leave the
  \<^verbatim>\<open>with closing(...)\<close> block, which closes the connection on every path. The method
  never calls \<^verbatim>\<open>commit()\<close>. \<open>cache_stations_body\<close> is the block between connecting and
  closing; the rows visible in the connection it returns are the table as the upsert
  statement leaves it.
\<close>

definition cache_stations_body ::
  "conversions \<Rightarrow> (nat \<Rightarrow> int) \<Rightarrow> pyval \<Rightarrow> connection \<Rightarrow> exn option \<times> connection" where
  "cache_stations_body fl clock stations conn = (case py_iter stations of
      Inl e \<Rightarrow> (Some e, conn)
    | Inr ss \<Rightarrow> (case station_tuples clock 0 ss of
        Inl e \<Rightarrow> (Some e, conn)
      | Inr ts \<Rightarrow> executemany fl conn ts))"

definition cache_stations ::
  "conversions \<Rightarrow> (nat \<Rightarrow> int) \<Rightarrow> pyval \<Rightarrow> db_file \<Rightarrow> exn option \<times> db_file" where
  "cache_stations fl clock stations f = (case connect f of
      Inl e \<Rightarrow> (Some e, f)
    | Inr conn \<Rightarrow> (case cache_stations_body fl clock stations conn of
        (r, conn') \<Rightarrow> (r, close conn')))"

section \<open>The directory client and the cache orchestration\<close>

record request =
  req_url :: string
  req_params :: "(string \<times> pyval) list"
  req_headers :: "(string \<times> string) list"
  req_timeout :: nat

text \<open>
  What \<^verbatim>\<open>requests.get\<close> can come back with: an exception (no connection, timeout), or
  a response with a status code and a body that \<^verbatim>\<open>response.json()\<close> either decodes or
  rejects. The directory service is any function from requests to such outcomes.
\<close>

datatype body = Malformed | Json pyval

datatype http_outcome = Failed exn | Response nat body

type_synonym directory = "request \<Rightarrow> http_outcome"

text \<open>\<^verbatim>\<open>response.raise_for_status()\<close> raises for the status codes 400 to 599.\<close>

definition raise_for_status :: "nat \<Rightarrow> exn option" where
  "raise_for_status status = (if 400 \<le> status \<and> status < 600 then Some HTTPError else None)"

definition response_json :: "body \<Rightarrow> exn + pyval" where
  "response_json b = (case b of Malformed \<Rightarrow> Inl JSONDecodeError | Json v \<Rightarrow> Inr v)"

subsection \<open>The player\<close>

text \<open>
  The VLC player is known through the calls made on it. It is any function that, given
  the calls made so far and the next one, either raises or returns an integer
  (\<^verbatim>\<open>is_playing\<close>: nonzero when playing; \<^verbatim>\<open>play\<close>: 0 on success, -1 on failure).
\<close>

datatype cmd =
    IsPlaying
  | Stop
  | MediaNew string
  | AddOption string
  | SetMedia
  | AudioSetVolume int
  | Play

datatype reply = Raises exn | Returns int

type_synonym engine = "cmd list \<Rightarrow> cmd \<Rightarrow> reply"

subsection \<open>The state of the core object and of what it touches\<close>

record core =
  api_base :: string
  volume :: int
  player :: "engine option"
  issued :: "cmd list"
  cache_file :: db_file
  sent :: "request list"
  logged :: "(string \<times> exn) list"

definition logger_error :: "string \<Rightarrow> exn \<Rightarrow> core \<Rightarrow> core" where
  "logger_error msg e c = c\<lparr>logged := logged c @ [(msg, e)]\<rparr>"

subsection \<open>\<^verbatim>\<open>get_stations\<close>\<close>

definition search_request :: "core \<Rightarrow> string \<Rightarrow> request" where
  "search_request c cname =
     \<lparr>req_url = api_base c @ ''/stations/search'',
      req_params = [(''country'', PStr cname), (''hidebroken'', PStr ''true''),
                    (''order'', PStr ''votes''), (''reverse'', PStr ''true''),
                    (''limit'', PInt 500)],
      req_headers = [(''User-Agent'', ''RadioGlobe/3.0'')],
      req_timeout = 10\<rparr>"

text \<open>
  The \<^verbatim>\<open>try\<close> block of \<^verbatim>\<open>get_stations\<close>. \<open>now\<close> is the \<^verbatim>\<open>datetime.now()\<close> read by the
  lookup, \<open>clock\<close> gives the ones read while the batch is built. An exception leaves
  the block with the state reached so far.
\<close>

definition get_stations_try ::
  "conversions \<Rightarrow> directory \<Rightarrow> (nat \<Rightarrow> int) \<Rightarrow> int \<Rightarrow> string \<Rightarrow> core \<Rightarrow> (exn + pyval \<times> nat) \<times> core" where
  "get_stations_try fl net clock now cname c =
     (case get_cached_stations now cname (cache_file c) of
        Inl e \<Rightarrow> (Inl e, c)
      | Inr cached \<Rightarrow>
          if cached \<noteq> [] then (Inr (PList cached, length cached), c)
          else
            let req = search_request c cname;
                c1 = c\<lparr>sent := sent c @ [req]\<rparr>
            in (case net req of
                  Failed e \<Rightarrow> (Inl e, c1)
                | Response status b \<Rightarrow>
                    (case raise_for_status status of
                       Some e \<Rightarrow> (Inl e, c1)
                     | None \<Rightarrow>
                         (case response_json b of
                            Inl e \<Rightarrow> (Inl e, c1)
                          | Inr stations \<Rightarrow>
                              (case cache_stations fl clock stations (cache_file c1) of
                                 (Some e, f) \<Rightarrow> (Inl e, c1\<lparr>cache_file := f\<rparr>)
                               | (None, f) \<Rightarrow>
                                   (case py_len stations of
                                      Inl e \<Rightarrow> (Inl e, c1\<lparr>cache_file := f\<rparr>)
                                    | Inr n \<Rightarrow>
                                        (Inr (stations, n), c1\<lparr>cache_file := f\<rparr>)))))))"

text \<open>\<^verbatim>\<open>except Exception as e\<close>: log and return \<^verbatim>\<open>[], 0\<close>.\<close>

definition get_stations ::
  "conversions \<Rightarrow> directory \<Rightarrow> (nat \<Rightarrow> int) \<Rightarrow> int \<Rightarrow> string \<Rightarrow> core \<Rightarrow> (pyval \<times> nat) \<times> core" where
  "get_stations fl net clock now cname c =
     (case get_stations_try fl net clock now cname c of
        (Inr r, c') \<Rightarrow> (r, c')
      | (Inl e, c') \<Rightarrow> ((PList [], 0), logger_error ''Failed to fetch stations'' e c'))"

subsection \<open>\<^verbatim>\<open>play\<close> and \<^verbatim>\<open>set_volume\<close>\<close>

text \<open>
  One call on \<^verbatim>\<open>self.player\<close> (or on the instance and the media it hands out): the call
  is recorded and the engine answers. Without a player object the attribute access
  raises.
\<close>

definition call :: "cmd \<Rightarrow> core \<Rightarrow> (exn + int) \<times> core" where
  "call k c = (case player c of
      None \<Rightarrow> (Inl AttributeError, c)
    | Some eng \<Rightarrow> (case eng (issued c) k of
        Raises e \<Rightarrow> (Inl e, c\<lparr>issued := issued c @ [k]\<rparr>)
      | Returns n \<Rightarrow> (Inr n, c\<lparr>issued := issued c @ [k]\<rparr>)))"

text \<open>A run of calls whose results are not used; the first exception ends it.\<close>

fun calls :: "cmd list \<Rightarrow> core \<Rightarrow> exn option \<times> core" where
  "calls [] c = (None, c)"
| "calls (k # ks) c = (case call k c of
      (Inl e, c') \<Rightarrow> (Some e, c')
    | (Inr n, c') \<Rightarrow> calls ks c')"

definition play_try :: "string \<Rightarrow> core \<Rightarrow> (exn + bool) \<times> core" where
  "play_try u c = (case call IsPlaying c of
      (Inl e, c1) \<Rightarrow> (Inl e, c1)
    | (Inr p, c1) \<Rightarrow>
        (case calls ((if p \<noteq> 0 then [Stop] else []) @
                     [MediaNew u, AddOption ''network-caching=3000'', SetMedia,
                      AudioSetVolume (volume c1)]) c1 of
           (Some e, c2) \<Rightarrow> (Inl e, c2)
         | (None, c2) \<Rightarrow>
             (case call Play c2 of
                (Inl e, c3) \<Rightarrow> (Inl e, c3)
              | (Inr n, c3) \<Rightarrow> (Inr (n = 0), c3))))"

definition play :: "string \<Rightarrow> core \<Rightarrow> bool \<times> core" where
  "play u c = (case play_try u c of
      (Inr b, c') \<Rightarrow> (b, c')
    | (Inl e, c') \<Rightarrow> (False, logger_error ''Playback failed'' e c'))"

text \<open>
  \<^verbatim>\<open>set_volume\<close> has no \<^verbatim>\<open>try\<close>: an exception of the engine reaches the caller, after
  \<^verbatim>\<open>self.volume\<close> has been assigned.
\<close>

definition set_volume :: "int \<Rightarrow> core \<Rightarrow> exn option \<times> core" where
  "set_volume v c =
     (if 0 \<le> v \<and> v \<le> 100 then
        let c1 = c\<lparr>volume := v\<rparr>
        in (case player c1 of
              None \<Rightarrow> (None, c1)
            | Some eng \<Rightarrow> (case call (AudioSetVolume v) c1 of
                (Inl e, c2) \<Rightarrow> (Some e, c2)
              | (Inr n, c2) \<Rightarrow> (None, c2)))
      else (None, c))"

section \<open>Notions used in the statements\<close>

text \<open>
  The row that \<^verbatim>\<open>_cache_stations\<close> builds for one element of the response: the nine
  \<^verbatim>\<open>s.get\<close> results, bound, with the timestamp. \<open>batch_rows\<close> lists the rows of the
  elements of a batch, the element at position \<open>k\<close> stamped with \<open>clock k\<close>.
\<close>

definition station_row :: "conversions \<Rightarrow> int \<Rightarrow> pyval \<Rightarrow> exn + row" where
  "station_row fl t s = (case get_all s station_fields of
      Inl e \<Rightarrow> Inl e
    | Inr vs \<Rightarrow> (case bind_all vs of Inl e \<Rightarrow> Inl e | Inr xs \<Rightarrow> row_of_values fl xs t))"

fun batch_rows :: "conversions \<Rightarrow> (nat \<Rightarrow> int) \<Rightarrow> nat \<Rightarrow> pyval list \<Rightarrow> row list" where
  "batch_rows fl clock k [] = []"
| "batch_rows fl clock k (s # ss) = (case station_row fl (clock k) s of
      Inl e \<Rightarrow> batch_rows fl clock (Suc k) ss
    | Inr r \<Rightarrow> r # batch_rows fl clock (Suc k) ss)"


text \<open>
  The columns of the table created by \<^verbatim>\<open>_init_cache_db\<close>, and the keys of a Python
  dictionary (none for a value that is not a dictionary).
\<close>

definition py_keys :: "pyval \<Rightarrow> string list" where
  "py_keys v = (case v of PDict kvs \<Rightarrow> map fst kvs | _ \<Rightarrow> [])"

definition columns :: "string list" where
  "columns = [''id'', ''name'', ''url'', ''country'', ''code'', ''tags'', ''homepage'',
     ''lat'', ''lon'', ''last_updated'']"


text \<open>
  Every call of a list, made in turn on the engine after the calls \<open>h\<close>, returns.
\<close>

fun returned :: "engine \<Rightarrow> cmd list \<Rightarrow> cmd list \<Rightarrow> bool" where
  "returned eng h [] = True"
| "returned eng h (k # ks) = (case eng h k of
      Raises e \<Rightarrow> False
    | Returns n \<Rightarrow> returned eng (h @ [k]) ks)"

text \<open>
  The calls that \<^verbatim>\<open>play\<close> makes when none of them raises, \<open>p\<close> being the answer of
  \<^verbatim>\<open>is_playing\<close>, \<open>u\<close> the url and \<open>v\<close> the sticky volume.
\<close>

definition play_script :: "int \<Rightarrow> string \<Rightarrow> int \<Rightarrow> cmd list" where
  "play_script p u v = IsPlaying # (if p \<noteq> 0 then [Stop] else []) @
     [MediaNew u, AddOption ''network-caching=3000'', SetMedia, AudioSetVolume v, Play]"

section \<open>Inputs used in the examples\<close>

definition row_x :: "int \<Rightarrow> row" where
  "row_x t = \<lparr>col_id = Text ''a'', col_name = Text ''A'', col_url = Text ''http://a'',
     col_country = Text ''X'', col_code = Text ''XX'', col_tags = Text ''pop'',
     col_homepage = Null, col_lat = Null, col_lon = Null, col_last_updated = t\<rparr>"

definition core0 :: core where
  "core0 = \<lparr>api_base = ''https://de1.api.radio-browser.info/json'', volume = 70,
     player = None, issued = [], cache_file = Table [], sent = [], logged = []\<rparr>"

text \<open>
  The examples bind no float and store no number in a \<^verbatim>\<open>REAL\<close> column, so any
  conversions serve.
\<close>

definition fl0 :: conversions where
  "fl0 = \<lparr>real_text = (\<lambda>f. ''0.0''), int_real = (\<lambda>i. Float64 0), text_real = (\<lambda>s. None)\<rparr>"

definition clock_5 :: "nat \<Rightarrow> int" where [simp]:
  "clock_5 k = 5"

definition net_down :: directory where
  "net_down req = Failed RequestException"

definition station_a :: pyval where
  "station_a = PDict [(''stationuuid'', PStr ''a''), (''name'', PStr ''A''),
     (''url'', PStr ''http://a''), (''country'', PStr ''X''), (''countrycode'', PStr ''XX''),
     (''tags'', PStr ''pop''), (''homepage'', PNone), (''geo_lat'', PNone),
     (''geo_long'', PNone), (''bitrate'', PInt 128), (''votes'', PInt 7)]"

definition station_noid :: pyval where
  "station_noid = PDict [(''name'', PStr ''N''), (''url'', PStr ''http://n''),
     (''country'', PStr ''X'')]"

definition row_noid :: "int \<Rightarrow> row" where
  "row_noid t = \<lparr>col_id = Null, col_name = Text ''N'', col_url = Text ''http://n'',
     col_country = Text ''X'', col_code = Null, col_tags = Null,
     col_homepage = Null, col_lat = Null, col_lon = Null, col_last_updated = t\<rparr>"

definition conn0 :: connection where
  "conn0 = \<lparr>committed = [], pending = None\<rparr>"

definition dir_a :: directory where
  "dir_a req = Response 200 (Json (PList [station_a]))"




definition eng_idle :: engine where
  "eng_idle h k = Returns 0"

definition eng_busy :: engine where
  "eng_busy h k = (case k of IsPlaying \<Rightarrow> Returns 1 | _ \<Rightarrow> Returns 0)"

definition eng_reject :: engine where
  "eng_reject h k = (case k of Play \<Rightarrow> Returns (- 1) | _ \<Rightarrow> Returns 0)"

section \<open>The cache lookup\<close>

lemma select_stations_age:
  "select_stations c (now - e) rows =
     filter (\<lambda>r. col_country r = Text c \<and> now - col_last_updated r < e) rows"
  unfolding select_stations_def by (rule filter_cong) auto

lemma get_cached_rows_Table:
  "get_cached_rows now c (Table rows) = Inr (select_stations c (now - cache_expiry) rows)"
  by (simp add: get_cached_rows_def connect_def visible_def)

lemma get_cached_stations_Table:
  "get_cached_stations now c (Table rows) =
     Inr (map dict_of_row (select_stations c (now - cache_expiry) rows))"
  by (simp add: get_cached_stations_def get_cached_rows_Table)

lemma select_all_fresh:
  assumes "\<forall>r\<in>set (filter (\<lambda>r. col_country r = Text c) rows). now - col_last_updated r < e"
  shows "select_stations c (now - e) rows = filter (\<lambda>r. col_country r = Text c) rows"
  unfolding select_stations_age using assms by (auto intro: filter_cong)

text \<open>
  Claim C4, as the code has it. The lookup of \<^verbatim>\<open>_get_cached_stations\<close> returns exactly
  the rows of the country whose age \<open>now - last_updated\<close> is strictly below the expiry:
  the comparison is \<^verbatim>\<open>last_updated > now - expiry\<close>, so a row whose age equals the expiry
  is not returned. Under the configured six hours, a row written at \<open>t0\<close> is returned
  at \<open>t0\<close> + 5h59m and not returned at \<open>t0\<close> + 6h01m.
\<close>

theorem lookup_fresh_below_expiry:
  "get_cached_rows now c (Table rows) =
     Inr (filter (\<lambda>r. col_country r = Text c \<and> now - col_last_updated r < cache_expiry) rows)
   \<and> get_cached_rows (t0 + 359 * 60000000) c
        (Table [r\<lparr>col_country := Text c, col_last_updated := t0\<rparr>]) =
        Inr [r\<lparr>col_country := Text c, col_last_updated := t0\<rparr>]
   \<and> get_cached_rows (t0 + 361 * 60000000) c
        (Table [r\<lparr>col_country := Text c, col_last_updated := t0\<rparr>]) = Inr []"
  by (simp add: get_cached_rows_Table select_stations_age) (simp add: cache_expiry_def)

text \<open>
  Claim C4 as the specification states it (fresh iff \<open>t - lastUpdated \<le> expiry\<close>,
  inclusive at the boundary) fails at the boundary: a row of country X written at
  instant 0 has age exactly \<open>cache_expiry\<close> at \<open>now = cache_expiry\<close>, and the lookup
  does not return it.
\<close>

theorem lookup_boundary_not_fresh:
  "cache_expiry - col_last_updated (row_x 0) \<le> cache_expiry
   \<and> col_country (row_x 0) = Text ''X''
   \<and> get_cached_rows cache_expiry ''X'' (Table [row_x 0]) = Inr []"
  by (simp add: get_cached_rows_Table select_stations_def row_x_def cache_expiry_def)

section \<open>The upsert statement\<close>

lemma station_row_stamp:
  "station_row fl t s = Inr r \<Longrightarrow> station_row fl t' s = Inr (r\<lparr>col_last_updated := t'\<rparr>)"
  by (auto simp: station_row_def row_of_values_def split: sum.splits list.splits)

lemma station_row_id:
  "station_row fl t s = Inr r \<Longrightarrow> station_row fl t' s = Inr r' \<Longrightarrow> col_id r' = col_id r"
  by (drule station_row_stamp [where t' = t']) auto

lemma station_tuples_rows:
  assumes "\<forall>s\<in>set ss. \<exists>r. station_row fl t0 s = Inr r"
  shows "\<exists>ts. station_tuples clock k ss = Inr ts \<and>
           (\<forall>rows. upsert_rows fl ts rows =
              (None, fold insert_or_replace (batch_rows fl clock k ss) rows))"
  using assms
proof (induction ss arbitrary: k)
  case Nil
  then show ?case by simp
next
  case (Cons s ss)
  from Cons.prems obtain r0 where r0: "station_row fl t0 s = Inr r0" by auto
  from station_row_stamp [OF r0, of "clock k"]
  obtain r where r: "station_row fl (clock k) s = Inr r" by blast
  from r obtain vs xs where vs: "get_all s station_fields = Inr vs"
    and xs: "bind_all vs = Inr xs" and row: "row_of_values fl xs (clock k) = Inr r"
    by (auto simp: station_row_def split: sum.splits)
  from Cons.IH [of "Suc k"] Cons.prems
  obtain ts where ts: "station_tuples clock (Suc k) ss = Inr ts"
    and up: "\<forall>rows. upsert_rows fl ts rows =
               (None, fold insert_or_replace (batch_rows fl clock (Suc k) ss) rows)"
    by auto
  show ?case using vs xs row ts up r by simp
qed

lemma set_insert_or_replace:
  "set (insert_or_replace r rows) \<subseteq> insert r (set rows)"
  by (auto simp: insert_or_replace_def)

lemma set_fold_insert_or_replace:
  "set (fold insert_or_replace rs rows) \<subseteq> set rows \<union> set rs"
proof (induction rs arbitrary: rows)
  case Nil
  then show ?case by simp
next
  case (Cons x rs)
  have "set (fold insert_or_replace rs (insert_or_replace x rows)) \<subseteq>
        set (insert_or_replace x rows) \<union> set rs"
    by (rule Cons.IH)
  then show ?case using set_insert_or_replace [of x rows] by auto
qed

lemma fold_insert_or_replace_keeps:
  "r \<in> set rows \<Longrightarrow> col_id r = Null \<or> col_id r \<notin> col_id ` set rs \<Longrightarrow>
     r \<in> set (fold insert_or_replace rs rows)"
proof (induction rs arbitrary: rows)
  case Nil
  then show ?case by simp
next
  case (Cons x rs)
  have 1: "r \<in> set (insert_or_replace x rows)"
    using Cons.prems by (auto simp: insert_or_replace_def)
  have 2: "col_id r = Null \<or> col_id r \<notin> col_id ` set rs"
    using Cons.prems(2) by auto
  show ?case using Cons.IH [OF 1 2] by simp
qed

lemma fold_insert_or_replace_inserted:
  assumes "col_id r = Null \<or> col_id r \<notin> col_id ` set post"
  shows "r \<in> set (fold insert_or_replace (pre @ r # post) rows)"
proof -
  have "r \<in> set (insert_or_replace r (fold insert_or_replace pre rows))"
    by (simp add: insert_or_replace_def)
  then show ?thesis using assms by (simp add: fold_insert_or_replace_keeps)
qed

lemma batch_rows_append:
  "batch_rows fl clock k (xs @ ys) = batch_rows fl clock k xs @ batch_rows fl clock (k + length xs) ys"
  by (induction xs arbitrary: k) (auto split: sum.splits)

lemma batch_rows_origin:
  "r \<in> set (batch_rows fl clock k ss) \<Longrightarrow> \<exists>s\<in>set ss. \<exists>t. station_row fl t s = Inr r"
  by (induction ss arbitrary: k) (auto split: sum.splits)

lemma executemany_rows:
  "upsert_rows fl ts (visible conn) = (res, rows) \<Longrightarrow>
     executemany fl conn ts = (res, conn\<lparr>pending := Some rows\<rparr>)"
  by (simp add: executemany_def)

lemma cache_stations_body_rows:
  assumes "py_iter stations = Inr ss"
    and "\<forall>s\<in>set ss. \<exists>r. station_row fl 0 s = Inr r"
  shows "cache_stations_body fl clock stations conn =
           (None, conn\<lparr>pending := Some (fold insert_or_replace (batch_rows fl clock 0 ss) (visible conn))\<rparr>)"
proof -
  from station_tuples_rows [OF assms(2), of clock 0]
  obtain ts where ts: "station_tuples clock 0 ss = Inr ts"
    and up: "\<forall>rows. upsert_rows fl ts rows =
               (None, fold insert_or_replace (batch_rows fl clock 0 ss) rows)"
    by blast
  show ?thesis
    using assms(1) ts up by (simp add: cache_stations_body_def executemany_def)
qed

lemma station_row_noid: "station_row fl t station_noid = Inr (row_noid t)"
  by (simp add: station_row_def station_noid_def station_fields_def py_get_def bind_def
      row_of_values_def row_noid_def text_affinity_def real_affinity_def)

lemma station_noid_without_id: "py_get station_noid ''stationuuid'' = Inr PNone"
  by (simp add: py_get_def station_noid_def)

lemma station_row_a: "station_row fl t station_a = Inr (row_x t)"
  by (simp add: station_row_def station_a_def station_fields_def py_get_def bind_def
      row_of_values_def row_x_def text_affinity_def real_affinity_def)

lemma station_row_id_bound:
  "station_row fl t s = Inr r \<Longrightarrow> py_get s ''stationuuid'' = Inr v \<Longrightarrow>
     \<exists>x. bind v = Inr x \<and> col_id r = text_affinity fl x"
  by (auto simp: station_row_def station_fields_def row_of_values_def
      split: sum.splits list.splits)

lemma station_row_without_id:
  "station_row fl t s = Inr r \<Longrightarrow> py_get s ''stationuuid'' = Inr PNone \<Longrightarrow> col_id r = Null"
  by (drule (1) station_row_id_bound) (auto simp: bind_def text_affinity_def)

text \<open>
  The text affinity of the id column at work: the integer 5 and the text \<^verbatim>\<open>'5'\<close> are
  stored as the same key.
\<close>

lemma decimal_5: "decimal 5 = ''5''"
  by code_simp

lemma text_affinity_5: "text_affinity fl (Integer 5) = text_affinity fl (Text ''5'')"
  by (simp add: text_affinity_def decimal_5)

text \<open>
  A record with the integer id 5 followed by one with the text id \<^verbatim>\<open>'5'\<close>: the second
  replaces the first, and the table holds one row.
\<close>

lemma upsert_integer_then_text_id:
  "cache_stations_body fl0 clock_5
     (PList [PDict [(''stationuuid'', PInt 5), (''name'', PStr ''S1'')],
             PDict [(''stationuuid'', PStr ''5''), (''name'', PStr ''S2'')]]) conn0 =
   (None, conn0\<lparr>pending := Some
      [\<lparr>col_id = Text ''5'', col_name = Text ''S2'', col_url = Null, col_country = Null,
        col_code = Null, col_tags = Null, col_homepage = Null, col_lat = Null,
        col_lon = Null, col_last_updated = 5\<rparr>]\<rparr>)"
  by (simp add: cache_stations_body_def py_iter_def station_fields_def py_get_def bind_def
      row_of_values_def executemany_def visible_def conn0_def insert_or_replace_def
      text_affinity_def real_affinity_def decimal_5)

text \<open>
  Claim C1, as the code has it. \<^verbatim>\<open>_cache_stations\<close> rejects no record for lacking an
  id. When every element of the batch can be bound, the statement succeeds and the
  table it leaves in its connection holds the row of every record that lacks
  \<^verbatim>\<open>stationuuid\<close>, with \<^verbatim>\<open>NULL\<close> as its id, and the row of every record whose id is not
  used again later in the batch.
\<close>

theorem upsert_applies_every_record:
  assumes "py_iter stations = Inr (pre @ s # post)"
    and "\<forall>x\<in>set (pre @ s # post). \<exists>r'. station_row fl 0 x = Inr r'"
    and "station_row fl (clock (length pre)) s = Inr r"
    and "py_get s ''stationuuid'' = Inr PNone
         \<or> (\<forall>x\<in>set post. \<forall>r'. station_row fl 0 x = Inr r' \<longrightarrow> col_id r' \<noteq> col_id r)"
  shows "\<exists>conn'. cache_stations_body fl clock stations conn = (None, conn')
           \<and> r \<in> set (visible conn')
           \<and> (py_get s ''stationuuid'' = Inr PNone \<longrightarrow> col_id r = Null)"
proof -
  let ?rows = "fold insert_or_replace (batch_rows fl clock 0 (pre @ s # post)) (visible conn)"
  have body: "cache_stations_body fl clock stations conn = (None, conn\<lparr>pending := Some ?rows\<rparr>)"
    by (rule cache_stations_body_rows [OF assms(1,2)])
  let ?post = "batch_rows fl clock (Suc (length pre)) post"
  have split: "batch_rows fl clock 0 (pre @ s # post) = batch_rows fl clock 0 pre @ r # ?post"
    using assms(3) by (simp add: batch_rows_append)
  have null: "col_id r = Null" if "py_get s ''stationuuid'' = Inr PNone"
    using station_row_without_id [OF assms(3) that] .
  have "col_id r = Null \<or> col_id r \<notin> col_id ` set ?post"
  proof (cases "col_id r = Null")
    case True
    then show ?thesis by simp
  next
    case False
    with assms(4) null
    have later: "\<forall>x\<in>set post. \<forall>r'. station_row fl 0 x = Inr r' \<longrightarrow> col_id r' \<noteq> col_id r"
      by blast
    have "col_id r' \<noteq> col_id r" if "r' \<in> set ?post" for r'
    proof -
      from batch_rows_origin [OF that] obtain x t where x: "x \<in> set post"
        and r': "station_row fl t x = Inr r'" by blast
      from station_row_stamp [OF r', of 0]
      have "station_row fl 0 x = Inr (r'\<lparr>col_last_updated := 0\<rparr>)" .
      with later x have "col_id (r'\<lparr>col_last_updated := 0\<rparr>) \<noteq> col_id r" by blast
      then show ?thesis by simp
    qed
    then show ?thesis by force
  qed
  then have "r \<in> set ?rows"
    unfolding split by (rule fold_insert_or_replace_inserted)
  then show ?thesis using body null by (simp add: visible_def)
qed

theorem upsert_applies_every_record_witness:
  "\<exists>conn'. cache_stations_body fl0 clock_5 (PList [station_noid, station_a]) conn0 = (None, conn')
      \<and> row_noid 5 \<in> set (visible conn')
      \<and> col_id (row_noid 5) = Null"
  using upsert_applies_every_record
    [of "PList [station_noid, station_a]" "[]" station_noid "[station_a]" fl0
      clock_5 "row_noid 5" conn0]
  by (simp add: py_iter_def station_row_noid station_row_a station_noid_without_id row_noid_def)

text \<open>
  Claim C1 as the specification states it (a record without id is rejected, no row is
  stored for it, the rest of the batch is applied) fails on the batch of one record
  without \<^verbatim>\<open>stationuuid\<close> followed by one with id \<^verbatim>\<open>a\<close>: the statement inserts a row
  with \<^verbatim>\<open>NULL\<close> id for the first record, next to the row of the second; and once the
  connection is closed the file holds neither row.
\<close>

theorem upsert_keeps_record_without_id:
  "py_get station_noid ''stationuuid'' = Inr PNone
   \<and> cache_stations_body fl0 clock_5 (PList [station_noid, station_a]) conn0 =
       (None, conn0\<lparr>pending := Some [row_noid 5, row_x 5]\<rparr>)
   \<and> col_id (row_noid 5) = Null
   \<and> cache_stations fl0 clock_5 (PList [station_noid, station_a]) (Table []) = (None, Table [])"
proof -
  have ok: "\<forall>s\<in>set [station_noid, station_a]. \<exists>r. station_row fl0 0 s = Inr r"
    by (simp add: station_row_noid station_row_a)
  have body: "cache_stations_body fl0 clock_5 (PList [station_noid, station_a]) conn =
      (None, conn\<lparr>pending := Some (fold insert_or_replace [row_noid 5, row_x 5] (visible conn))\<rparr>)"
    for conn
    using cache_stations_body_rows [OF _ ok, of "PList [station_noid, station_a]" clock_5 conn]
    by (simp add: py_iter_def station_row_noid station_row_a)
  have rows: "fold insert_or_replace [row_noid 5, row_x 5] [] = [row_noid 5, row_x 5]"
    by (simp add: insert_or_replace_def row_noid_def row_x_def)
  show ?thesis
    using body [of conn0] body [of "\<lparr>committed = [], pending = None\<rparr>"] rows
    by (simp add: conn0_def visible_def cache_stations_def connect_def close_def
        py_get_def station_noid_def row_noid_def)
qed




section \<open>Cache misses\<close>

lemma executemany_committed:
  "executemany fl conn ts = (res, conn') \<Longrightarrow> committed conn' = committed conn"
  by (auto simp: executemany_def split: prod.splits)

lemma cache_stations_body_committed:
  "cache_stations_body fl clock stations conn = (res, conn') \<Longrightarrow> committed conn' = committed conn"
  by (auto simp: cache_stations_body_def split: sum.splits dest: executemany_committed)

lemma cache_stations_keeps_file: "snd (cache_stations fl clock stations f) = f"
proof (cases f)
  case Unavailable
  then show ?thesis by (simp add: cache_stations_def connect_def)
next
  case (Table rows)
  obtain res conn' where b: "cache_stations_body fl clock stations
      \<lparr>committed = rows, pending = None\<rparr> = (res, conn')"
    by (cases "cache_stations_body fl clock stations \<lparr>committed = rows, pending = None\<rparr>")
  from cache_stations_body_committed [OF b] have "committed conn' = rows" by simp
  then show ?thesis using Table b by (simp add: cache_stations_def connect_def close_def)
qed

lemma cache_stations_a:
  "cache_stations fl clock (PList [station_a]) (Table rows) = (None, Table rows)"
proof -
  have ok: "\<forall>s\<in>set [station_a]. \<exists>r. station_row fl 0 s = Inr r"
    by (simp add: station_row_a)
  show ?thesis
    using cache_stations_body_rows [OF _ ok, of "PList [station_a]" clock
        "\<lparr>committed = rows, pending = None\<rparr>"]
    by (simp add: py_iter_def cache_stations_def connect_def close_def)
qed



text \<open>
  Claim C3. On a miss (the lookup succeeds and finds no fresh row) \<^verbatim>\<open>get_stations\<close>
  sends exactly one search request, with the parameters country, hidebroken=true,
  order=votes, reverse=true, limit=500. The cache file, however, is the same after the
  call as before it: the rows of \<^verbatim>\<open>_cache_stations\<close> live in a transaction that is never
  committed. The example is a directory that answers with one station: the station is
  returned with count 1 and the file still holds no row.
\<close>

theorem get_stations_miss_stores_nothing:
  assumes "get_cached_stations now cname (cache_file c) = Inr []"
  shows "sent (snd (get_stations fl net clock now cname c)) = sent c @ [search_request c cname]
       \<and> req_params (search_request c cname) =
           [(''country'', PStr cname), (''hidebroken'', PStr ''true''),
            (''order'', PStr ''votes''), (''reverse'', PStr ''true''), (''limit'', PInt 500)]
       \<and> cache_file (snd (get_stations fl net clock now cname c)) = cache_file c"
proof -
  have f: "cache_stations fl clock st (cache_file c) = (r, f') \<Longrightarrow> f' = cache_file c" for st r f'
    using cache_stations_keeps_file [of fl clock st "cache_file c"] by simp
  show ?thesis
    using assms
    by (auto simp: get_stations_def get_stations_try_def Let_def logger_error_def
        search_request_def dest: f split: http_outcome.splits option.splits sum.splits prod.splits)
qed

theorem get_stations_miss_stores_nothing_witness:
  "get_cached_stations 5 ''X'' (cache_file core0) = Inr []
   \<and> get_stations fl0 dir_a clock_5 5 ''X'' core0 =
       ((PList [station_a], 1), core0\<lparr>sent := [search_request core0 ''X'']\<rparr>)
   \<and> cache_file (snd (get_stations fl0 dir_a clock_5 5 ''X'' core0)) = Table []"
proof -
  have miss: "get_cached_stations 5 ''X'' (cache_file core0) = Inr []"
    by (simp add: core0_def get_cached_stations_Table select_stations_def)
  have ok: "\<forall>s\<in>set [station_a]. \<exists>r. station_row fl0 0 s = Inr r"
    by (simp add: station_row_a)
  have body: "cache_stations_body fl0 clock_5 (PList [station_a]) \<lparr>committed = [], pending = None\<rparr> =
      (None, \<lparr>committed = [], pending = Some (fold insert_or_replace [row_x 5] [])\<rparr>)"
    using cache_stations_body_rows [OF _ ok, of "PList [station_a]" clock_5
        "\<lparr>committed = [], pending = None\<rparr>"]
    by (simp add: py_iter_def station_row_a visible_def)
  have store: "cache_stations fl0 clock_5 (PList [station_a]) (Table []) = (None, Table [])"
    using body by (simp add: cache_stations_def connect_def close_def)
  have run: "get_stations fl0 dir_a clock_5 5 ''X'' core0 =
       ((PList [station_a], 1), core0\<lparr>sent := [search_request core0 ''X'']\<rparr>)"
    using miss store
    by (simp add: get_stations_def get_stations_try_def Let_def dir_a_def raise_for_status_def
        response_json_def py_len_def core0_def)
  show ?thesis
    using get_stations_miss_stores_nothing [OF miss, of fl0 dir_a clock_5] miss run by (simp add: core0_def)
qed


section \<open>Cache hits\<close>

lemma py_get_dict_of_row:
  "py_get (dict_of_row r) ''id'' = Inr (unbind (col_id r))"
  "py_get (dict_of_row r) ''name'' = Inr (unbind (col_name r))"
  "py_get (dict_of_row r) ''url'' = Inr (unbind (col_url r))"
  "py_get (dict_of_row r) ''country'' = Inr (unbind (col_country r))"
  "py_get (dict_of_row r) ''code'' = Inr (unbind (col_code r))"
  "py_get (dict_of_row r) ''tags'' = Inr (unbind (col_tags r))"
  "py_get (dict_of_row r) ''homepage'' = Inr (unbind (col_homepage r))"
  "py_get (dict_of_row r) ''lat'' = Inr (unbind (col_lat r))"
  "py_get (dict_of_row r) ''lon'' = Inr (unbind (col_lon r))"
  "py_get (dict_of_row r) ''last_updated'' = Inr (PTime (col_last_updated r))"
  by (simp_all add: py_get_def dict_of_row_def)

text \<open>
  Claim C2, as the code has it. When every row stored for a country has an age
  strictly below the expiry at the time of the query and there is at least one,
  \<^verbatim>\<open>get_stations\<close> returns exactly these rows with their number, and the state is
  unchanged: no request has been sent, nothing has been logged, the cache file is as it
  was. Each returned record holds the ten column values of its row under the column
  names, a \<^verbatim>\<open>NULL\<close> as \<^verbatim>\<open>None\<close>, a text as the string, a number as the number.
\<close>

theorem get_stations_cache_hit:
  assumes "cache_file c = Table rows"
    and "stored = filter (\<lambda>r. col_country r = Text cname) rows"
    and "stored \<noteq> []"
    and "\<forall>r\<in>set stored. now - col_last_updated r < cache_expiry"
  shows "get_stations fl net clock now cname c =
           ((PList (map dict_of_row stored), length stored), c)
       \<and> (\<forall>r\<in>set stored.
             py_get (dict_of_row r) ''id'' = Inr (unbind (col_id r))
           \<and> py_get (dict_of_row r) ''name'' = Inr (unbind (col_name r))
           \<and> py_get (dict_of_row r) ''url'' = Inr (unbind (col_url r))
           \<and> py_get (dict_of_row r) ''country'' = Inr (unbind (col_country r))
           \<and> py_get (dict_of_row r) ''code'' = Inr (unbind (col_code r))
           \<and> py_get (dict_of_row r) ''tags'' = Inr (unbind (col_tags r))
           \<and> py_get (dict_of_row r) ''homepage'' = Inr (unbind (col_homepage r))
           \<and> py_get (dict_of_row r) ''lat'' = Inr (unbind (col_lat r))
           \<and> py_get (dict_of_row r) ''lon'' = Inr (unbind (col_lon r))
           \<and> py_get (dict_of_row r) ''last_updated'' = Inr (PTime (col_last_updated r))
           \<and> py_keys (dict_of_row r) = columns)
       \<and> unbind Null = PNone \<and> unbind (Text s) = PStr s
       \<and> unbind (Integer i) = PInt i \<and> unbind (Real x) = PFloat x"
proof -
  have "select_stations cname (now - cache_expiry) rows = stored"
    using assms(2,4) select_all_fresh by blast
  then have "get_stations fl net clock now cname c =
           ((PList (map dict_of_row stored), length stored), c)"
    using assms(1,3)
    by (simp add: get_stations_def get_stations_try_def get_cached_stations_Table)
  moreover have "py_keys (dict_of_row r) = columns" for r
    by (simp add: py_keys_def dict_of_row_def columns_def)
  moreover have "unbind Null = PNone \<and> unbind (Text s) = PStr s
       \<and> unbind (Integer i) = PInt i \<and> unbind (Real x) = PFloat x"
    by (simp add: unbind_def)
  ultimately show ?thesis
    by (simp add: py_get_dict_of_row)
qed

theorem get_stations_cache_hit_witness:
  "get_stations fl0 net_down clock_5 5 ''X'' (core0\<lparr>cache_file := Table [row_x 0]\<rparr>) =
     ((PList [PDict [(''id'', PStr ''a''), (''name'', PStr ''A''), (''url'', PStr ''http://a''),
         (''country'', PStr ''X''), (''code'', PStr ''XX''), (''tags'', PStr ''pop''),
         (''homepage'', PNone), (''lat'', PNone), (''lon'', PNone),
         (''last_updated'', PTime 0)]], 1),
      core0\<lparr>cache_file := Table [row_x 0]\<rparr>)"
proof -
  have d: "dict_of_row (row_x 0) =
      PDict [(''id'', PStr ''a''), (''name'', PStr ''A''), (''url'', PStr ''http://a''),
         (''country'', PStr ''X''), (''code'', PStr ''XX''), (''tags'', PStr ''pop''),
         (''homepage'', PNone), (''lat'', PNone), (''lon'', PNone),
         (''last_updated'', PTime 0)]"
    by (simp add: dict_of_row_def row_x_def unbind_def)
  have "get_stations fl0 net_down clock_5 5 ''X'' (core0\<lparr>cache_file := Table [row_x 0]\<rparr>) =
      ((PList (map dict_of_row [row_x 0]), length [row_x 0]),
       core0\<lparr>cache_file := Table [row_x 0]\<rparr>)"
    using get_stations_cache_hit
      [where c = "core0\<lparr>cache_file := Table [row_x 0]\<rparr>" and rows = "[row_x 0]"
        and stored = "[row_x 0]" and cname = "''X''" and now = 5 and fl = fl0
        and net = net_down and clock = clock_5]
    by (simp add: row_x_def cache_expiry_def)
  then show ?thesis by (simp add: d)
qed

text \<open>
  Claim C2 as the specification states it takes a row to be fresh when
  \<open>t - lastUpdated \<le> expiry\<close>. It fails for a row whose age equals the expiry: the row
  of country X written at instant 0 is the whole stored set at \<open>now = cache_expiry\<close>,
  yet \<^verbatim>\<open>get_stations\<close> sends a request and returns the record of the directory.
\<close>

theorem get_stations_boundary_row_refetched:
  "cache_expiry - col_last_updated (row_x 0) \<le> cache_expiry
   \<and> filter (\<lambda>r. col_country r = Text ''X'') [row_x 0] = [row_x 0]
   \<and> get_stations fl0 dir_a clock_5 cache_expiry ''X'' (core0\<lparr>cache_file := Table [row_x 0]\<rparr>) =
       ((PList [station_a], 1),
        core0\<lparr>cache_file := Table [row_x 0],
          sent := [search_request (core0\<lparr>cache_file := Table [row_x 0]\<rparr>) ''X'']\<rparr>)"
proof -
  have miss: "get_cached_stations cache_expiry ''X'' (Table [row_x 0]) = Inr []"
    by (simp add: get_cached_stations_Table select_stations_def row_x_def)
  show ?thesis
    using miss cache_stations_a [of fl0 clock_5 "[row_x 0]"]
    by (simp add: get_stations_def get_stations_try_def Let_def dir_a_def raise_for_status_def
        response_json_def py_len_def core0_def row_x_def)
qed

section \<open>Failures inside \<^verbatim>\<open>get_stations\<close>\<close>

lemma get_stations_except:
  "get_stations_try fl net clock now cname c = (Inl e, c') \<Longrightarrow>
     get_stations fl net clock now cname c =
       ((PList [], 0), logger_error ''Failed to fetch stations'' e c')"
  by (simp add: get_stations_def)











text \<open>
  Claim C6, as the code has it. The lookup runs inside the same \<^verbatim>\<open>try\<close> as the rest:
  when it raises, \<^verbatim>\<open>get_stations\<close> logs the error and returns the empty list with
  count 0. No request is sent.
\<close>

theorem get_stations_lookup_failure:
  assumes "get_cached_stations now cname (cache_file c) = Inl e"
  shows "get_stations fl net clock now cname c =
           ((PList [], 0), c\<lparr>logged := logged c @ [(''Failed to fetch stations'', e)]\<rparr>)"
  using assms by (simp add: get_stations_def get_stations_try_def logger_error_def)

theorem get_stations_lookup_failure_witness:
  "get_stations fl0 dir_a clock_5 5 ''X'' (core0\<lparr>cache_file := Unavailable\<rparr>) =
     ((PList [], 0),
      core0\<lparr>cache_file := Unavailable,
        logged := [(''Failed to fetch stations'', OperationalError)]\<rparr>)"
  using get_stations_lookup_failure [of 5 "''X''" "core0\<lparr>cache_file := Unavailable\<rparr>"
      OperationalError fl0 dir_a clock_5]
  by (simp add: get_cached_stations_def get_cached_rows_def connect_def core0_def)

text \<open>
  Claim C6 as the specification states it (a failing lookup is treated as a miss and
  the directory is searched) fails with an unavailable cache file: the directory would
  answer with one station, the call returns the empty list and no request has been
  sent.
\<close>

theorem get_stations_lookup_failure_no_search:
  "get_cached_stations 5 ''X'' (cache_file (core0\<lparr>cache_file := Unavailable\<rparr>)) =
     Inl OperationalError
   \<and> dir_a (search_request (core0\<lparr>cache_file := Unavailable\<rparr>) ''X'') =
       Response 200 (Json (PList [station_a]))
   \<and> fst (get_stations fl0 dir_a clock_5 5 ''X'' (core0\<lparr>cache_file := Unavailable\<rparr>)) =
       (PList [], 0)
   \<and> sent (snd (get_stations fl0 dir_a clock_5 5 ''X'' (core0\<lparr>cache_file := Unavailable\<rparr>))) = []"
  by (simp add: get_stations_def get_stations_try_def get_cached_stations_def
      get_cached_rows_def connect_def logger_error_def core0_def dir_a_def)

section \<open>The two shapes of the returned records\<close>

lemma py_keys_dict_of_row: "py_keys (dict_of_row r) = columns"
  by (simp add: py_keys_def dict_of_row_def columns_def)

lemma get_cached_stations_shape:
  "get_cached_stations now cname f = Inr cached \<Longrightarrow> h \<in> set cached \<Longrightarrow> py_keys h = columns"
  by (auto simp: get_cached_stations_def py_keys_dict_of_row split: sum.splits)

lemma cache_stations_list_ok:
  assumes "\<forall>d\<in>set ds. \<exists>r. station_row fl 0 d = Inr r"
  shows "fst (cache_stations fl clock (PList ds) (Table rows)) = None"
  using cache_stations_body_rows [OF _ assms, of "PList ds" clock
      "\<lparr>committed = rows, pending = None\<rparr>"]
  by (simp add: py_iter_def cache_stations_def connect_def)

lemma get_cached_stations_file:
  "get_cached_stations now cname f = Inr cached \<Longrightarrow> \<exists>rows. f = Table rows"
  by (cases f) (auto simp: get_cached_stations_def get_cached_rows_def connect_def)

text \<open>
  Claim C10. On a hit the returned records are the rows of the table: their keys are
  the column names, which include neither \<^verbatim>\<open>bitrate\<close> nor \<^verbatim>\<open>votes\<close>. On a miss the
  returned records are the records of the response, unchanged. A record of the
  directory has the key \<^verbatim>\<open>stationuuid\<close>, which is no column name, so no record of a hit
  has the keys of a record of a miss.
\<close>

theorem get_stations_shapes_differ:
  assumes "get_cached_stations now cname (cache_file c) = Inr cached"
    and "cached \<noteq> []"
    and "get_cached_stations now' cname (cache_file c') = Inr []"
    and "net (search_request c' cname) = Response status (Json (PList ds))"
    and "\<not> (400 \<le> status \<and> status < 600)"
    and "\<forall>d\<in>set ds. \<exists>r. station_row fl 0 d = Inr r"
    and "\<forall>d\<in>set ds. ''stationuuid'' \<in> set (py_keys d)"
  shows "fst (get_stations fl net clock now cname c) = (PList cached, length cached)
       \<and> (\<forall>h\<in>set cached. py_keys h = columns)
       \<and> ''bitrate'' \<notin> set columns \<and> ''votes'' \<notin> set columns
       \<and> fst (get_stations fl net clock now' cname c') = (PList ds, length ds)
       \<and> (\<forall>h\<in>set cached. \<forall>d\<in>set ds. set (py_keys h) \<noteq> set (py_keys d))"
proof -
  have hit: "fst (get_stations fl net clock now cname c) = (PList cached, length cached)"
    using assms(1,2) by (simp add: get_stations_def get_stations_try_def)
  have shape: "\<forall>h\<in>set cached. py_keys h = columns"
    using get_cached_stations_shape [OF assms(1)] by blast
  from get_cached_stations_file [OF assms(3)] obtain rows where f: "cache_file c' = Table rows"
    by blast
  have "fst (cache_stations fl clock (PList ds) (Table rows)) = None"
    by (rule cache_stations_list_ok [OF assms(6)])
  then obtain f' where store: "cache_stations fl clock (PList ds) (Table rows) = (None, f')"
    by (cases "cache_stations fl clock (PList ds) (Table rows)") auto
  have miss: "fst (get_stations fl net clock now' cname c') = (PList ds, length ds)"
  proof -
    have "raise_for_status status = None"
      using assms(5) by (simp add: raise_for_status_def)
    then show ?thesis
      using assms(3,4) f store
      by (simp add: get_stations_def get_stations_try_def Let_def response_json_def py_len_def)
  qed
  have cols: "''stationuuid'' \<notin> set columns" "''bitrate'' \<notin> set columns"
    "''votes'' \<notin> set columns"
    by (simp_all add: columns_def)
  have differ: "\<forall>h\<in>set cached. \<forall>d\<in>set ds. set (py_keys h) \<noteq> set (py_keys d)"
    using shape assms(7) cols(1) by auto
  show ?thesis using hit shape cols miss differ by blast
qed

lemma station_a_keys: "''stationuuid'' \<in> set (py_keys station_a)"
  by (simp add: py_keys_def station_a_def)

theorem get_stations_shapes_differ_witness:
  "fst (get_stations fl0 dir_a clock_5 5 ''X'' (core0\<lparr>cache_file := Table [row_x 0]\<rparr>)) =
     (PList [dict_of_row (row_x 0)], 1)
   \<and> fst (get_stations fl0 dir_a clock_5 (cache_expiry + 5) ''X''
        (core0\<lparr>cache_file := Table [row_x 0]\<rparr>)) = (PList [station_a], 1)
   \<and> py_keys (dict_of_row (row_x 0)) = columns
   \<and> set (py_keys (dict_of_row (row_x 0))) \<noteq> set (py_keys station_a)"
proof -
  let ?c = "core0\<lparr>cache_file := Table [row_x 0]\<rparr>"
  have hit: "get_cached_stations 5 ''X'' (cache_file ?c) = Inr [dict_of_row (row_x 0)]"
    by (simp add: get_cached_stations_Table select_stations_def row_x_def cache_expiry_def)
  have miss: "get_cached_stations (cache_expiry + 5) ''X'' (cache_file ?c) = Inr []"
    by (simp add: get_cached_stations_Table select_stations_def row_x_def)
  have resp: "dir_a (search_request ?c ''X'') = Response 200 (Json (PList [station_a]))"
    by (simp add: dir_a_def)
  have ok: "\<forall>d\<in>set [station_a]. \<exists>r. station_row fl0 0 d = Inr r"
    by (simp add: station_row_a)
  have keys: "\<forall>d\<in>set [station_a]. ''stationuuid'' \<in> set (py_keys d)"
    by (simp add: station_a_keys)
  have all: "fst (get_stations fl0 dir_a clock_5 5 ''X'' ?c) =
        (PList [dict_of_row (row_x 0)], length [dict_of_row (row_x 0)])
      \<and> (\<forall>h\<in>set [dict_of_row (row_x 0)]. py_keys h = columns)
      \<and> ''bitrate'' \<notin> set columns \<and> ''votes'' \<notin> set columns
      \<and> fst (get_stations fl0 dir_a clock_5 (cache_expiry + 5) ''X'' ?c) =
          (PList [station_a], length [station_a])
      \<and> (\<forall>h\<in>set [dict_of_row (row_x 0)]. \<forall>d\<in>set [station_a].
            set (py_keys h) \<noteq> set (py_keys d))"
    using hit miss resp ok keys
    by (intro get_stations_shapes_differ [where status = 200 and net = dir_a and fl = fl0
          and clock = clock_5 and c = ?c and c' = ?c
          and cname = "''X''" and now = 5 and now' = "cache_expiry + 5"
          and cached = "[dict_of_row (row_x 0)]" and ds = "[station_a]"]) simp_all
  from all have 1: "fst (get_stations fl0 dir_a clock_5 5 ''X'' ?c) =
      (PList [dict_of_row (row_x 0)], 1)" by simp
  from all have 2: "fst (get_stations fl0 dir_a clock_5 (cache_expiry + 5) ''X'' ?c) =
      (PList [station_a], 1)" by simp
  from all have 3: "\<forall>h\<in>set [dict_of_row (row_x 0)]. py_keys h = columns" by blast
  from all have 4: "\<forall>h\<in>set [dict_of_row (row_x 0)]. \<forall>d\<in>set [station_a].
      set (py_keys h) \<noteq> set (py_keys d)" by blast
  from 3 have keys_hit: "py_keys (dict_of_row (row_x 0)) = columns" by simp
  from 4 have keys_differ: "set (py_keys (dict_of_row (row_x 0))) \<noteq> set (py_keys station_a)"
    by (metis list.set_intros(1))
  from 1 2 keys_hit keys_differ show ?thesis by blast
qed

section \<open>The player\<close>

lemma call_Raises:
  "player c = Some eng \<Longrightarrow> eng (issued c) k = Raises e \<Longrightarrow>
     call k c = (Inl e, c\<lparr>issued := issued c @ [k]\<rparr>)"
  by (simp add: call_def)

lemma call_Returns:
  "player c = Some eng \<Longrightarrow> eng (issued c) k = Returns n \<Longrightarrow>
     call k c = (Inr n, c\<lparr>issued := issued c @ [k]\<rparr>)"
  by (simp add: call_def)

lemma returned_append:
  "returned eng h (xs @ ys) \<longleftrightarrow> returned eng h xs \<and> returned eng (h @ xs) ys"
  by (induction xs arbitrary: h) (auto split: reply.splits)

lemma calls_cases:
  assumes "player c = Some eng"
  shows "(\<exists>pre k post e. ks = pre @ k # post \<and> returned eng (issued c) pre
            \<and> eng (issued c @ pre) k = Raises e
            \<and> calls ks c = (Some e, c\<lparr>issued := issued c @ pre @ [k]\<rparr>))
         \<or> (returned eng (issued c) ks \<and> calls ks c = (None, c\<lparr>issued := issued c @ ks\<rparr>))"
  using assms
proof (induction ks arbitrary: c)
  case Nil
  then show ?case by simp
next
  case (Cons k ks)
  show ?case
  proof (cases "eng (issued c) k")
    case (Raises e)
    have "calls (k # ks) c = (Some e, c\<lparr>issued := issued c @ [] @ [k]\<rparr>)"
      using call_Raises [OF Cons.prems Raises] by simp
    moreover have "k # ks = [] @ k # ks" by simp
    moreover have "returned eng (issued c) []" by simp
    moreover have "eng (issued c @ []) k = Raises e" using Raises by simp
    ultimately show ?thesis by blast
  next
    case (Returns n)
    let ?c1 = "c\<lparr>issued := issued c @ [k]\<rparr>"
    have step: "calls (k # ks) c = calls ks ?c1"
      using call_Returns [OF Cons.prems Returns] by simp
    have p1: "player ?c1 = Some eng" using Cons.prems by simp
    from Cons.IH [OF p1] show ?thesis
    proof
      assume "\<exists>pre k' post e. ks = pre @ k' # post \<and> returned eng (issued ?c1) pre
            \<and> eng (issued ?c1 @ pre) k' = Raises e
            \<and> calls ks ?c1 = (Some e, ?c1\<lparr>issued := issued ?c1 @ pre @ [k']\<rparr>)"
      then obtain pre k' post e where ks: "ks = pre @ k' # post"
        and ret: "returned eng (issued ?c1) pre"
        and r: "eng (issued ?c1 @ pre) k' = Raises e"
        and run: "calls ks ?c1 = (Some e, ?c1\<lparr>issued := issued ?c1 @ pre @ [k']\<rparr>)"
        by blast
      have "k # ks = (k # pre) @ k' # post" using ks by simp
      moreover have "returned eng (issued c) (k # pre)" using ret Returns by simp
      moreover have "eng (issued c @ (k # pre)) k' = Raises e" using r by simp
      moreover have "calls (k # ks) c = (Some e, c\<lparr>issued := issued c @ (k # pre) @ [k']\<rparr>)"
        using step run by simp
      ultimately show ?thesis by blast
    next
      assume a: "returned eng (issued ?c1) ks
          \<and> calls ks ?c1 = (None, ?c1\<lparr>issued := issued ?c1 @ ks\<rparr>)"
      then have "calls (k # ks) c = (None, c\<lparr>issued := issued c @ k # ks\<rparr>)"
        using step by simp
      moreover have "returned eng (issued c) (k # ks)" using a Returns by simp
      ultimately show ?thesis by blast
    qed
  qed
qed

text \<open>
  Claim C9. \<^verbatim>\<open>set_volume v\<close> with \<open>0 \<le> v \<le> 100\<close> makes \<open>v\<close> the sticky volume and, when
  there is a player, sends it \<^verbatim>\<open>audio_set_volume(v)\<close> at once; with any other \<open>v\<close> it
  raises nothing and changes nothing.
\<close>

theorem set_volume_range:
  "(0 \<le> v \<and> v \<le> 100 \<longrightarrow>
      volume (snd (set_volume v c)) = v
      \<and> issued (snd (set_volume v c)) =
          (case player c of None \<Rightarrow> issued c | Some eng \<Rightarrow> issued c @ [AudioSetVolume v]))
   \<and> (\<not> (0 \<le> v \<and> v \<le> 100) \<longrightarrow> set_volume v c = (None, c))"
  by (auto simp: set_volume_def call_def Let_def split: option.splits reply.splits)

theorem set_volume_range_witness:
  "volume (snd (set_volume 0 (core0\<lparr>player := Some eng_idle\<rparr>))) = 0
   \<and> volume (snd (set_volume 100 (core0\<lparr>player := Some eng_idle\<rparr>))) = 100
   \<and> issued (snd (set_volume 100 (core0\<lparr>player := Some eng_idle\<rparr>))) = [AudioSetVolume 100]
   \<and> set_volume 150 (core0\<lparr>player := Some eng_idle\<rparr>) =
        (None, core0\<lparr>player := Some eng_idle\<rparr>)
   \<and> set_volume (- 1) (core0\<lparr>player := Some eng_idle\<rparr>) =
        (None, core0\<lparr>player := Some eng_idle\<rparr>)
   \<and> volume (core0\<lparr>player := Some eng_idle\<rparr>) = 70"
  using set_volume_range [of 0 "core0\<lparr>player := Some eng_idle\<rparr>"]
    set_volume_range [of 100 "core0\<lparr>player := Some eng_idle\<rparr>"]
    set_volume_range [of 150 "core0\<lparr>player := Some eng_idle\<rparr>"]
    set_volume_range [of "- 1" "core0\<lparr>player := Some eng_idle\<rparr>"]
  by (simp add: core0_def)

text \<open>
  Claim C8, as the code has it. The calls that \<^verbatim>\<open>play\<close> makes are an initial part of
  the script \<^verbatim>\<open>is_playing\<close>, \<^verbatim>\<open>stop\<close> (only when the engine said it was playing),
  \<^verbatim>\<open>media_new\<close>, \<^verbatim>\<open>add_option\<close>, \<^verbatim>\<open>set_media\<close>, \<^verbatim>\<open>audio_set_volume\<close> with the sticky
  volume, \<^verbatim>\<open>play\<close>; every call before the last one made has returned. Either the
  last call made raised: then the result is false and the error is logged. Or the
  whole script ran and \<^verbatim>\<open>play\<close> returned: then the result is true exactly when it
  returned 0, and nothing is logged, also when it returned a failure code.
\<close>

theorem play_outcome:
  assumes "player c = Some eng" and "play u c = (b, c')"
  shows "\<exists>p ks rest.
           play_script p u (volume c) = ks @ rest \<and> ks \<noteq> []
         \<and> (ks \<noteq> [IsPlaying] \<longrightarrow> eng (issued c) IsPlaying = Returns p)
         \<and> returned eng (issued c) (butlast ks)
         \<and> ((\<exists>e. eng (issued c @ butlast ks) (last ks) = Raises e \<and> \<not> b
                \<and> c' = c\<lparr>issued := issued c @ ks,
                         logged := logged c @ [(''Playback failed'', e)]\<rparr>)
            \<or> (\<exists>n. rest = [] \<and> eng (issued c @ butlast ks) Play = Returns n
                \<and> b = (n = 0) \<and> c' = c\<lparr>issued := issued c @ ks\<rparr>))"
proof (cases "eng (issued c) IsPlaying")
  case (Raises e)
  have "play u c = (False, c\<lparr>issued := issued c @ [IsPlaying],
      logged := logged c @ [(''Playback failed'', e)]\<rparr>)"
    using call_Raises [OF assms(1) Raises]
    by (simp add: play_def play_try_def logger_error_def)
  with assms(2) have b: "\<not> b" and c': "c' = c\<lparr>issued := issued c @ [IsPlaying],
      logged := logged c @ [(''Playback failed'', e)]\<rparr>" by simp_all
  have "play_script 0 u (volume c) = [IsPlaying] @ tl (play_script 0 u (volume c))"
    by (simp add: play_script_def)
  with Raises b c' show ?thesis
    by (intro exI [of _ 0] exI [of _ "[IsPlaying]"] exI [of _ "tl (play_script 0 u (volume c))"])
      simp
next
  case (Returns p)
  let ?c1 = "c\<lparr>issued := issued c @ [IsPlaying]\<rparr>"
  let ?mid = "(if p \<noteq> 0 then [Stop] else []) @
     [MediaNew u, AddOption ''network-caching=3000'', SetMedia, AudioSetVolume (volume c)]"
  have script: "play_script p u (volume c) = IsPlaying # ?mid @ [Play]"
    by (simp add: play_script_def)
  have first: "call IsPlaying c = (Inr p, ?c1)"
    using call_Returns [OF assms(1) Returns] .
  have p1: "player ?c1 = Some eng" using assms(1) by simp
  have body: "play_try u c = (case calls ?mid ?c1 of
           (Some e, c2) \<Rightarrow> (Inl e, c2)
         | (None, c2) \<Rightarrow>
             (case call Play c2 of
                (Inl e, c3) \<Rightarrow> (Inl e, c3)
              | (Inr n, c3) \<Rightarrow> (Inr (n = 0), c3)))"
    using first by (simp add: play_try_def)
  from calls_cases [OF p1, of ?mid] show ?thesis
  proof
    assume "\<exists>pre k post e. ?mid = pre @ k # post \<and> returned eng (issued ?c1) pre
            \<and> eng (issued ?c1 @ pre) k = Raises e
            \<and> calls ?mid ?c1 = (Some e, ?c1\<lparr>issued := issued ?c1 @ pre @ [k]\<rparr>)"
    then obtain pre k post e where mid: "?mid = pre @ k # post"
      and ret: "returned eng (issued ?c1) pre"
      and r: "eng (issued ?c1 @ pre) k = Raises e"
      and run: "calls ?mid ?c1 = (Some e, ?c1\<lparr>issued := issued ?c1 @ pre @ [k]\<rparr>)"
      by blast
    let ?ks = "IsPlaying # pre @ [k]"
    have "play u c = (False, c\<lparr>issued := issued c @ ?ks,
        logged := logged c @ [(''Playback failed'', e)]\<rparr>)"
      using body run by (simp add: play_def logger_error_def)
    with assms(2) have b: "\<not> b" and c': "c' = c\<lparr>issued := issued c @ ?ks,
        logged := logged c @ [(''Playback failed'', e)]\<rparr>" by simp_all
    have split: "play_script p u (volume c) = ?ks @ (post @ [Play])"
      unfolding script mid by simp
    have last: "eng (issued c @ butlast ?ks) (last ?ks) = Raises e"
      using r by (simp add: butlast_append)
    have before: "returned eng (issued c) (butlast ?ks)"
      using ret Returns by (simp add: butlast_append)
    have "?ks \<noteq> []" by simp
    with split Returns last before b c' show ?thesis by blast
  next
    assume run': "returned eng (issued ?c1) ?mid
        \<and> calls ?mid ?c1 = (None, ?c1\<lparr>issued := issued ?c1 @ ?mid\<rparr>)"
    then have run: "calls ?mid ?c1 = (None, ?c1\<lparr>issued := issued ?c1 @ ?mid\<rparr>)"
      and ret: "returned eng (issued ?c1) ?mid" by simp_all
    let ?c2 = "c\<lparr>issued := issued c @ IsPlaying # ?mid\<rparr>"
    let ?ks = "IsPlaying # ?mid @ [Play]"
    have c2: "?c1\<lparr>issued := issued ?c1 @ ?mid\<rparr> = ?c2" by simp
    have p2: "player ?c2 = Some eng" using assms(1) by simp
    have bl: "issued c @ butlast ?ks = issued ?c2" "last ?ks = Play"
      by (simp_all add: butlast_append)
    have fin: "?c2\<lparr>issued := issued ?c2 @ [Play]\<rparr> = c\<lparr>issued := issued c @ ?ks\<rparr>"
      by simp
    have bk: "butlast ?ks = IsPlaying # ?mid" by (simp add: butlast_append)
    have before: "returned eng (issued c) (butlast ?ks)"
      unfolding bk using ret Returns by simp
    show ?thesis
    proof (cases "eng (issued ?c2) Play")
      case (Raises e)
      have "call Play ?c2 = (Inl e, ?c2\<lparr>issued := issued ?c2 @ [Play]\<rparr>)"
        using call_Raises [OF p2 Raises] .
      then have "play u c = (False, c\<lparr>issued := issued c @ ?ks,
          logged := logged c @ [(''Playback failed'', e)]\<rparr>)"
        using body run unfolding c2 fin by (simp add: play_def logger_error_def)
      with assms(2) have b: "\<not> b" and c': "c' = c\<lparr>issued := issued c @ ?ks,
          logged := logged c @ [(''Playback failed'', e)]\<rparr>" by simp_all
      have "eng (issued c @ butlast ?ks) (last ?ks) = Raises e"
        unfolding bl using Raises .
      moreover have "play_script p u (volume c) = ?ks @ []" using script by simp
      moreover have "?ks \<noteq> []" by simp
      ultimately show ?thesis
        using \<open>eng (issued c) IsPlaying = Returns p\<close> before b c' by blast
    next
      case (Returns n)
      have "call Play ?c2 = (Inr n, ?c2\<lparr>issued := issued ?c2 @ [Play]\<rparr>)"
        using call_Returns [OF p2 Returns] .
      then have "play u c = (n = 0, c\<lparr>issued := issued c @ ?ks\<rparr>)"
        using body run unfolding c2 fin by (simp add: play_def)
      with assms(2) have b: "b = (n = 0)" and c': "c' = c\<lparr>issued := issued c @ ?ks\<rparr>"
        by simp_all
      have "eng (issued c @ butlast ?ks) Play = Returns n"
        unfolding bl using Returns .
      moreover have "play_script p u (volume c) = ?ks @ []" using script by simp
      moreover have "?ks \<noteq> []" by simp
      ultimately show ?thesis
        using \<open>eng (issued c) IsPlaying = Returns p\<close> before b c' by blast
    qed
  qed
qed

lemma play_busy:
  "play ''http://a'' (core0\<lparr>player := Some eng_busy\<rparr>) =
     (True, core0\<lparr>player := Some eng_busy,
        issued := [IsPlaying, Stop, MediaNew ''http://a'', AddOption ''network-caching=3000'',
                   SetMedia, AudioSetVolume 70, Play]\<rparr>)"
  by (simp add: play_def play_try_def call_def eng_busy_def core0_def)

theorem play_outcome_witness:
  "play ''http://a'' (core0\<lparr>player := Some eng_busy\<rparr>) =
     (True, core0\<lparr>player := Some eng_busy,
        issued := [IsPlaying, Stop, MediaNew ''http://a'', AddOption ''network-caching=3000'',
                   SetMedia, AudioSetVolume 70, Play]\<rparr>)
   \<and> (\<exists>p ks rest.
         play_script p ''http://a'' 70 = ks @ rest \<and> ks \<noteq> []
       \<and> eng_busy [] IsPlaying = Returns p
       \<and> rest = [] \<and> eng_busy (butlast ks) Play = Returns 0)"
proof -
  let ?c = "core0\<lparr>player := Some eng_busy\<rparr>"
  have p: "player ?c = Some eng_busy" by simp
  from play_outcome [OF p play_busy]
  obtain p ks rest where s: "play_script p ''http://a'' (volume ?c) = ks @ rest" "ks \<noteq> []"
    and q: "ks \<noteq> [IsPlaying] \<longrightarrow> eng_busy (issued ?c) IsPlaying = Returns p"
    and d: "(\<exists>e. eng_busy (issued ?c @ butlast ks) (last ks) = Raises e) \<or>
        (\<exists>n. rest = [] \<and> eng_busy (issued ?c @ butlast ks) Play = Returns n \<and> True = (n = 0))"
    by blast
  have nr: "eng_busy h k \<noteq> Raises e" for h k e
    by (simp add: eng_busy_def split: cmd.splits)
  from d nr have r: "rest = []" and pl: "eng_busy (issued ?c @ butlast ks) Play = Returns 0"
    by auto
  from s r have "ks \<noteq> [IsPlaying]" by (auto simp: play_script_def)
  with q have "eng_busy (issued ?c) IsPlaying = Returns p" by simp
  with s r pl play_busy show ?thesis by (auto simp: core0_def)
qed

text \<open>
  Claim C8 as the specification states it (every failure of the engine is logged)
  fails for an engine that answers \<^verbatim>\<open>play\<close> with -1: the result is false and the log
  is still empty.
\<close>

theorem play_rejected_not_logged:
  "play ''http://a'' (core0\<lparr>player := Some eng_reject\<rparr>) =
     (False, core0\<lparr>player := Some eng_reject,
        issued := [IsPlaying, MediaNew ''http://a'', AddOption ''network-caching=3000'',
                   SetMedia, AudioSetVolume 70, Play]\<rparr>)
   \<and> eng_reject [IsPlaying, MediaNew ''http://a'', AddOption ''network-caching=3000'',
                   SetMedia, AudioSetVolume 70] Play = Returns (- 1)
   \<and> logged (snd (play ''http://a'' (core0\<lparr>player := Some eng_reject\<rparr>))) = []"
  by (simp add: play_def play_try_def call_def eng_reject_def core0_def)

end
